theory Spec2Isabelle
  imports Main "HOL-Library.Sublist" "HOL-Library.Char_ord" "HOL-Library.List_Lexorder"
    "HOL-Library.Log_Nat"
begin

section \<open>Strings\<close>

text \<open>
  Python \<^verbatim>\<open>str\<close> values are modelled as \<^typ>\<open>string\<close>, one \<^typ>\<open>char\<close> per character,
  for text in the ASCII range. \<^verbatim>\<open>str.strip()\<close> without argument removes leading and trailing
  whitespace; in the ASCII range Python's whitespace characters are the code points
  9 to 13 and 28 to 32.
\<close>

definition is_space :: "char \<Rightarrow> bool" where
  "is_space c = (let n = (of_char c :: nat) in (9 \<le> n \<and> n \<le> 13) \<or> (28 \<le> n \<and> n \<le> 32))"

definition strip :: "string \<Rightarrow> string" where
  "strip s = rev (dropWhile is_space (rev (dropWhile is_space s)))"

section \<open>The near-mismatch classifier\<close>

text \<open>
  \<^verbatim>\<open>check_exactly_one_mismatch_or_missing(s1, s2)\<close>, lines 27 to 60 of \<^verbatim>\<open>test2.py\<close>.
  The two loops of the source are kept as loops over the index range:
  \<^verbatim>\<open>for i in range(len1)\<close> counts the positions that differ, and
  \<^verbatim>\<open>for k in range(len(s1))\<close> returns at the first deletion position that works.
  The slice \<^verbatim>\<open>s1[:k] + s1[k+1:]\<close> is \<open>take k s1 @ drop (k + 1) s1\<close>.
\<close>

definition count_mismatches :: "string \<Rightarrow> string \<Rightarrow> nat \<Rightarrow> nat" where
  "count_mismatches s1 s2 len1 =
     fold (\<lambda>i mismatches. if s1 ! i \<noteq> s2 ! i then mismatches + 1 else mismatches) [0..<len1] 0"

fun deletion_loop :: "string \<Rightarrow> string \<Rightarrow> nat list \<Rightarrow> bool" where
  "deletion_loop s1 s2 [] = False"
| "deletion_loop s1 s2 (k # ks) =
     (if take k s1 @ drop (k + 1) s1 = s2 then True else deletion_loop s1 s2 ks)"

definition check_exactly_one_mismatch_or_missing :: "string \<Rightarrow> string \<Rightarrow> bool" where
  "check_exactly_one_mismatch_or_missing a b =
     (let s1 = strip a; s2 = strip b; len1 = length s1; len2 = length s2 in
      if s1 = s2 then False
      else if len1 = len2 then count_mismatches s1 s2 len1 = 1
      else if \<bar>int len1 - int len2\<bar> = 1 then
        (let (l, s) = (if len1 < len2 then (s2, s1) else (s1, s2)) in
         deletion_loop l s [0..<length l])
      else False)"

text \<open>
  The spec's words for the equal-length case: the number of character positions at which
  two strings differ (their Hamming distance).
\<close>

definition hamming_distance :: "string \<Rightarrow> string \<Rightarrow> nat" where
  "hamming_distance xs ys = length (filter (\<lambda>(x, y). x \<noteq> y) (zip xs ys))"

section \<open>Text helpers\<close>

text \<open>
  \<^verbatim>\<open>str.upper()\<close> and \<^verbatim>\<open>str.lower()\<close> on ASCII text, \<^verbatim>\<open>str(n)\<close> for a non-negative
  integer, and \<^verbatim>\<open>filename.rsplit('.', 1)\<close> for a name that contains a dot.
\<close>

definition upper_char :: "char \<Rightarrow> char" where
  "upper_char c =
     (case map_of (zip ''abcdefghijklmnopqrstuvwxyz'' ''ABCDEFGHIJKLMNOPQRSTUVWXYZ'') c of
        Some u \<Rightarrow> u | None \<Rightarrow> c)"

definition lower_char :: "char \<Rightarrow> char" where
  "lower_char c =
     (case map_of (zip ''ABCDEFGHIJKLMNOPQRSTUVWXYZ'' ''abcdefghijklmnopqrstuvwxyz'') c of
        Some l \<Rightarrow> l | None \<Rightarrow> c)"

definition upper :: "string \<Rightarrow> string" where
  "upper s = map upper_char s"

definition lower :: "string \<Rightarrow> string" where
  "lower s = map lower_char s"

definition digit_char :: "nat \<Rightarrow> char" where
  "digit_char d = ''0123456789'' ! d"

function str_nat :: "nat \<Rightarrow> string" where
  "str_nat n = (if n < 10 then [digit_char n] else str_nat (n div 10) @ [digit_char (n mod 10)])"
  by pat_completeness auto
termination
  by (relation "measure id") auto

declare str_nat.simps [simp del]

definition rsplit_dot_head :: "string \<Rightarrow> string" where
  "rsplit_dot_head filename = rev (tl (dropWhile (\<lambda>c. c \<noteq> CHR ''.'') (rev filename)))"

definition rsplit_dot_tail :: "string \<Rightarrow> string" where
  "rsplit_dot_tail filename = rev (takeWhile (\<lambda>c. c \<noteq> CHR ''.'') (rev filename))"

text \<open>
  \<^verbatim>\<open>allowed_file(filename)\<close>, lines 22 to 25, with
  \<^verbatim>\<open>ALLOWED_EXTENSIONS = {'xlsx', 'xls'}\<close>.
\<close>

definition ALLOWED_EXTENSIONS :: "string set" where
  "ALLOWED_EXTENSIONS = {''xlsx'', ''xls''}"

definition allowed_file :: "string \<Rightarrow> bool" where
  "allowed_file filename =
     (CHR ''.'' \<in> set filename \<and> lower (rsplit_dot_tail filename) \<in> ALLOWED_EXTENSIONS)"

text \<open>
  \<^verbatim>\<open>werkzeug.utils.secure_filename\<close> is library code. On a POSIX host it drops every
  character outside ASCII, replaces the path separator by a space, joins the
  whitespace-separated words with an underscore, removes every character that is not a
  letter, a digit, an underscore, a dot or a hyphen, and strips dots and underscores from both
  ends.
\<close>

fun split_words :: "string \<Rightarrow> string \<Rightarrow> string list" where
  "split_words [] cur = (if cur = [] then [] else [rev cur])"
| "split_words (c # cs) cur =
     (if is_space c then (if cur = [] then split_words cs [] else rev cur # split_words cs [])
      else split_words cs (c # cur))"

fun join_with :: "string \<Rightarrow> string list \<Rightarrow> string" where
  "join_with sep [] = []"
| "join_with sep [w] = w"
| "join_with sep (w # ws) = w @ sep @ join_with sep ws"

definition filename_char :: "char \<Rightarrow> bool" where
  "filename_char c =
     (c \<in> set ''ABCDEFGHIJKLMNOPQRSTUVWXYZabcdefghijklmnopqrstuvwxyz0123456789_.-'')"

definition secure_filename :: "string \<Rightarrow> string" where
  "secure_filename filename =
     (let ascii = filter (\<lambda>c. (of_char c :: nat) < 128) filename;
          no_sep = map (\<lambda>c. if c = CHR ''/'' then CHR '' '' else c) ascii;
          joined = filter filename_char (join_with ''_'' (split_words no_sep []));
          edge = (\<lambda>c. c \<in> set ''._'')
      in rev (dropWhile edge (rev (dropWhile edge joined))))"

section \<open>Tables\<close>

text \<open>
  A pandas cell is either missing (\<^verbatim>\<open>NaN\<close>) or holds a value, which is kept by its string
  form, the one \<^verbatim>\<open>astype(str)\<close> and \<^verbatim>\<open>str()\<close> give. A \<^verbatim>\<open>DataFrame\<close> is its list of column
  labels and its rows; a row gives the cell under each label, and only the labels of the
  frame are ever read.
\<close>

datatype cell = NaN | Text string

type_synonym row = "string \<Rightarrow> cell"

record dataframe =
  columns :: "string list"
  rows :: "row list"

fun astype_str :: "cell \<Rightarrow> string" where
  "astype_str NaN = ''nan''"
| "astype_str (Text s) = s"

fun isnull :: "cell \<Rightarrow> bool" where
  "isnull NaN = True"
| "isnull (Text s) = False"

datatype exc = KeyError string | ZeroDivisionError

text \<open>\<^verbatim>\<open>str(e)\<close> of a raised exception: a \<^verbatim>\<open>KeyError\<close> prints its key quoted.\<close>

fun str_exc :: "exc \<Rightarrow> string" where
  "str_exc (KeyError k) = [CHR 0x27] @ k @ [CHR 0x27]"
| "str_exc ZeroDivisionError = ''division by zero''"

text \<open>\<^verbatim>\<open>DataFrame.empty\<close>: some axis has length 0.\<close>

definition empty_df :: "dataframe \<Rightarrow> bool" where
  "empty_df df = (rows df = [] \<or> columns df = [])"

text \<open>
  \<^verbatim>\<open>df.reindex(columns=cols, fill_value=v)\<close>: the frame with exactly the labels \<open>cols\<close>; a
  label the frame did not have is filled with \<open>v\<close> in every row.
\<close>

definition reindex :: "string list \<Rightarrow> cell \<Rightarrow> dataframe \<Rightarrow> dataframe" where
  "reindex cols fill_value df =
     \<lparr>columns = cols,
      rows = map (\<lambda>r c. if c \<in> set (columns df) then r c else fill_value) (rows df)\<rparr>"

text \<open>
  \<^verbatim>\<open>df.groupby(col)\<close> with the defaults of pandas: rows whose key is missing are dropped,
  the groups come in ascending order of their keys, each group holds its rows in the order
  of the frame. \<^verbatim>\<open>get_group\<close> raises \<^verbatim>\<open>KeyError\<close> for a key that names no group.
\<close>

definition group_keys :: "string \<Rightarrow> dataframe \<Rightarrow> string list" where
  "group_keys col df =
     sort (remdups (map (\<lambda>r. astype_str (r col)) (filter (\<lambda>r. \<not> isnull (r col)) (rows df))))"

definition groupby :: "string \<Rightarrow> dataframe \<Rightarrow> (string \<times> dataframe) list" where
  "groupby col df =
     map (\<lambda>k. (k, df\<lparr>rows := filter (\<lambda>r. r col = Text k) (rows df)\<rparr>)) (group_keys col df)"

definition get_group :: "(string \<times> dataframe) list \<Rightarrow> string \<Rightarrow> exc + dataframe" where
  "get_group groups name =
     (case map_of groups name of None \<Rightarrow> Inl (KeyError name) | Some g \<Rightarrow> Inr g)"

section \<open>Loading and filtering\<close>

definition SOURCE_COL :: string where
  "SOURCE_COL = ''source''"

definition ANPR_COL :: string where
  "ANPR_COL = ''ANPR Plate Number''"

definition TC_COL :: string where
  "TC_COL = ''TC_PLATE Number''"

text \<open>
  \<^verbatim>\<open>process_excel_data(file_stream)\<close>, lines 62 to 104. The argument is what
  \<^verbatim>\<open>pd.read_excel\<close> makes of the stream: the frame of \<^verbatim>\<open>Sheet1\<close>, or the exception it raises,
  with its message. The result is the message of the error triple
  \<^verbatim>\<open>(None, message, None)\<close>, or the triple of the mismatch frame, its length and the full
  frame. The classifier receives the two plate cells of a row; its \<^verbatim>\<open>str()\<close> is applied here.
\<close>

datatype read_error = BadZipFile string | ValueError string | OtherError string

definition missing_columns_message :: string where
  "missing_columns_message =
     ''Excel missing required columns: **'' @ ANPR_COL @ ''**, **'' @ TC_COL @ ''**, or **''
       @ SOURCE_COL @ ''**.''"

definition clean_row :: "row \<Rightarrow> row" where
  "clean_row r =
     (let r1 = r(ANPR_COL := Text (upper (strip (astype_str (r ANPR_COL)))));
          r2 = r1(TC_COL := Text (upper (strip (astype_str (r1 TC_COL)))));
          r3 = r2(SOURCE_COL := Text (strip (astype_str (r2 SOURCE_COL))))
      in r3)"

definition filter_mask :: "row \<Rightarrow> bool" where
  "filter_mask r =
     check_exactly_one_mismatch_or_missing (astype_str (r ANPR_COL)) (astype_str (r TC_COL))"

definition process_excel_data ::
  "read_error + dataframe \<Rightarrow> string + (dataframe \<times> nat \<times> dataframe)" where
  "process_excel_data file_stream =
     (case file_stream of
        Inl (BadZipFile e) \<Rightarrow>
          Inl (''File Error: The uploaded file is corrupted or not a valid Excel (.xlsx) file. Details: '' @ e)
      | Inl (ValueError e) \<Rightarrow> Inl e
      | Inl (OtherError e) \<Rightarrow>
          Inl (''An unexpected error occurred during Excel reading: '' @ e)
      | Inr df \<Rightarrow>
          if ANPR_COL \<notin> set (columns df) \<or> TC_COL \<notin> set (columns df)
             \<or> SOURCE_COL \<notin> set (columns df)
          then Inl missing_columns_message
          else
            (let full_df = df\<lparr>rows := map clean_row (rows df)\<rparr>;
                 mismatch_df = full_df\<lparr>rows := filter filter_mask (rows full_df)\<rparr>
             in Inr (mismatch_df, length (rows mismatch_df), full_df)))"

section \<open>Floating point\<close>

text \<open>
  A Python \<^verbatim>\<open>float\<close> is an IEEE 754 binary64 number. A finite one is a rational, and each
  operation returns the representable number nearest to the exact result, ties to the even
  significand; \<open>binary64\<close> is that rounding for a non-negative rational within the
  exponent range of the format (the values here are quotients and percentages of row
  counts). \<^verbatim>\<open>f'{x:.2f}'\<close> prints the decimal with two fraction digits nearest to the exact
  value of \<open>x\<close>, ties to even.
\<close>

definition round_half_even :: "rat \<Rightarrow> int" where
  "round_half_even q =
     (let f = \<lfloor>q\<rfloor>; d = q - of_int f in
      if d < 1 / 2 then f else if 1 / 2 < d then f + 1 else if even f then f else f + 1)"

definition pow2 :: "int \<Rightarrow> rat" where
  "pow2 e = (if 0 \<le> e then 2 ^ nat e else 1 / 2 ^ nat (- e))"

definition floor_log2 :: "rat \<Rightarrow> int" where
  "floor_log2 q = (if 1 \<le> q then bitlen \<lfloor>q\<rfloor> - 1 else - bitlen (\<lceil>1 / q\<rceil> - 1))"

definition binary64 :: "rat \<Rightarrow> rat" where
  "binary64 q =
     (if q \<le> 0 then 0
      else let u = pow2 (floor_log2 q - 52) in of_int (round_half_even (q / u)) * u)"

definition truediv :: "nat \<Rightarrow> nat \<Rightarrow> exc + rat" where
  "truediv a b = (if b = 0 then Inl ZeroDivisionError else Inr (binary64 (of_nat a / of_nat b)))"

definition fmul :: "rat \<Rightarrow> rat \<Rightarrow> rat" where
  "fmul x y = binary64 (x * y)"

definition format_2f :: "rat \<Rightarrow> string" where
  "format_2f x =
     (let n = nat (round_half_even (x * 100)) in
      str_nat (n div 100) @ ''.'' @ [digit_char (n mod 100 div 10), digit_char (n mod 10)])"

section \<open>Report generation\<close>

definition COLUMNS_TO_KEEP :: "string list" where
  "COLUMNS_TO_KEEP =
     [''ANPR Sequence'', ''ANPR Plate Number'', ''TC_PLATE Number'', ''image_path'', ''vehicle_image'']"

definition SEQUENCE_COL :: string where
  "SEQUENCE_COL = ''ANPR Sequence''"

text \<open>
  The document \<^verbatim>\<open>ANPR_Report_PDF\<close> builds is kept by its content: the title of the page
  header, the table rows and the labelled values of the summary block. A table row is the
  three text cells and the two image paths of \<^verbatim>\<open>add_data_row\<close>; page breaks, fonts and the
  drawing of an image or of its placeholder are layout and are left out.
\<close>

record pdf =
  report_title :: string
  total_count :: nat
  mismatch_count :: nat
  zero_seq_count :: nat
  table_rows :: "string list list"
  summary_lines :: "(string \<times> string) list"

text \<open>
  \<^verbatim>\<open>print_summary\<close>, lines 194 to 220: after the heading \<^verbatim>\<open>--- Report Summary ---\<close> three
  labelled counts, then the percentage line under the guard of line 215. The division of
  line 216 raises \<^verbatim>\<open>ZeroDivisionError\<close> on a zero divisor.
\<close>

definition print_summary :: "nat \<Rightarrow> nat \<Rightarrow> nat \<Rightarrow> exc + (string \<times> string) list" where
  "print_summary n_total n_mismatch n_zero_seq =
     (let counts =
        [(''Total Vehicles in this Source/Lane:'', str_nat n_total),
         (''Vehicles with Zero/Unidentified Sequence:'', str_nat n_zero_seq),
         (''Near-Mismatched Vehicles:'', str_nat n_mismatch)]
      in if 0 < n_total then
           (case truediv n_mismatch n_total of
              Inl e \<Rightarrow> Inl e
            | Inr q \<Rightarrow>
                (let percentage = fmul q 100
                 in Inr (counts @ [(''Mismatch Percentage:'', format_2f percentage @ ''%'')])))
         else Inr counts)"

text \<open>
  Lines 234 to 238: the number of rows of the source's full frame whose sequence cell, as a
  trimmed string, is \<^verbatim>\<open>0\<close>, or is missing, or, as a trimmed string, is \<^verbatim>\<open>unidentified\<close>.
  Selecting a column the frame does not have raises \<^verbatim>\<open>KeyError\<close>.
\<close>

definition zero_sequence :: "cell \<Rightarrow> bool" where
  "zero_sequence c =
     (strip (astype_str c) = ''0'' \<or> isnull c \<or> strip (astype_str c) = ''unidentified'')"

definition count_zero_seq :: "dataframe \<Rightarrow> exc + nat" where
  "count_zero_seq df_full_source =
     (if SEQUENCE_COL \<in> set (columns df_full_source)
      then Inr (length (filter (\<lambda>r. zero_sequence (r SEQUENCE_COL)) (rows df_full_source)))
      else Inl (KeyError SEQUENCE_COL))"

definition add_data_row :: "row \<Rightarrow> string list" where
  "add_data_row data = map (\<lambda>col. astype_str (data col)) COLUMNS_TO_KEEP"

definition create_pdf_report :: "dataframe \<Rightarrow> dataframe \<Rightarrow> string \<Rightarrow> exc + pdf" where
  "create_pdf_report df_mismatch df_full_source source_name =
     (let df_report = reindex COLUMNS_TO_KEEP (Text []) df_mismatch;
          total_vehicles = length (rows df_full_source);
          mismatch_vehicles = length (rows df_mismatch)
      in case count_zero_seq df_full_source of
           Inl e \<Rightarrow> Inl e
         | Inr zero_seq \<Rightarrow>
             (case print_summary total_vehicles mismatch_vehicles zero_seq of
                Inl e \<Rightarrow> Inl e
              | Inr summary \<Rightarrow>
                  Inr \<lparr>report_title = source_name, total_count = total_vehicles,
                       mismatch_count = mismatch_vehicles, zero_seq_count = zero_seq,
                       table_rows = map add_data_row (rows df_report),
                       summary_lines = summary\<rparr>))"

section \<open>The upload route\<close>

text \<open>
  \<^verbatim>\<open>upload_file()\<close>, lines 280 to 357. The request carries the uploaded file or none; a
  file is its name and what reading its stream gives. The response is a redirect to the
  index page after a flashed message, or the download of the archive after a flashed
  message. The archive is the list of its entries, name and document, in the order
  \<^verbatim>\<open>writestr\<close> added them; \<^verbatim>\<open>writestr\<close> adds an entry also under a name the archive
  already has. Every exception raised inside the \<^verbatim>\<open>try\<close> block is flashed as an error.
\<close>

datatype category = error | success

record file_storage =
  filename :: string
  stream :: "read_error + dataframe"

datatype response =
    Redirect "string \<times> category"
  | SendFile "(string \<times> pdf) list" string "string \<times> category"

definition check_mark :: string where
  "check_mark = [CHR 0xE2, CHR 0x9C, CHR 0x85]"

definition display_name :: "string \<Rightarrow> string" where
  "display_name source_name =
     (if source_name = [] \<or> lower (strip source_name) = ''nan''
      then ''UNSPECIFIED_SOURCE'' else source_name)"

fun write_reports ::
  "(string \<times> dataframe) list \<Rightarrow> (string \<times> dataframe) list \<Rightarrow> (string \<times> pdf) list \<times> nat
     \<Rightarrow> exc + ((string \<times> pdf) list \<times> nat)" where
  "write_reports [] full_groups (zf, total_pdf_count) = Inr (zf, total_pdf_count)"
| "write_reports ((source_name, mismatch_group_df) # rest) full_groups (zf, total_pdf_count) =
     (case get_group full_groups source_name of
        Inl e \<Rightarrow> Inl e
      | Inr full_group_df \<Rightarrow>
          (case create_pdf_report mismatch_group_df full_group_df (display_name source_name) of
             Inl e \<Rightarrow> Inl e
           | Inr pdf_bytes \<Rightarrow>
               (let safe_source_name = secure_filename (display_name source_name);
                    pdf_filename = ''ANPR_Report_'' @ safe_source_name @ ''.pdf''
                in write_reports rest full_groups
                     (zf @ [(pdf_filename, pdf_bytes)], total_pdf_count + 1))))"

definition found_message :: "nat \<Rightarrow> nat \<Rightarrow> string" where
  "found_message count total_pdf_count =
     check_mark @ '' Found **'' @ str_nat count @ ''** total near-mismatches, grouped into **''
       @ str_nat total_pdf_count @ ''** reports. Downloading ZIP file.''"

definition upload_file :: "file_storage option \<Rightarrow> response" where
  "upload_file request_file =
     (case request_file of
        None \<Rightarrow> Redirect (''No file part in the request.'', error)
      | Some file \<Rightarrow>
          if filename file = [] then Redirect (''No selected file.'', error)
          else if allowed_file (filename file) then
            (case process_excel_data (stream file) of
               Inl message \<Rightarrow> Redirect (''Processing Error: '' @ message, error)
             | Inr (mismatch_df, count, full_df) \<Rightarrow>
                 if empty_df mismatch_df
                 then Redirect
                        (check_mark @ '' File processed successfully! No near-mismatches found.'',
                         success)
                 else
                   (case write_reports (groupby SOURCE_COL mismatch_df)
                           (groupby SOURCE_COL full_df) ([], 0) of
                      Inl e \<Rightarrow>
                        Redirect
                          (''An unexpected error occurred during processing or report generation: ''
                             @ str_exc e, error)
                    | Inr (zf, total_pdf_count) \<Rightarrow>
                        SendFile zf
                          (''ANPR_Reports_Grouped_By_Source_''
                             @ secure_filename (rsplit_dot_head (filename file)) @ ''.zip'')
                          (found_message count total_pdf_count, success)))
          else Redirect (''Invalid file type. Only .xlsx and .xls are allowed.'', error))"

section \<open>Vocabulary of the statements\<close>

text \<open>
  The name \<^verbatim>\<open>pdf_filename\<close> that \<^verbatim>\<open>upload_file\<close> gives to the report of a source, and
  the relation between a group of mismatch rows and the archive entry written for it.
\<close>

definition entry_name :: "string \<Rightarrow> string" where
  "entry_name source_name = ''ANPR_Report_'' @ secure_filename (display_name source_name) @ ''.pdf''"

definition report_of_group ::
  "(string \<times> dataframe) list \<Rightarrow> string \<times> dataframe \<Rightarrow> string \<times> pdf \<Rightarrow> bool" where
  "report_of_group full_groups kg entry =
     (case kg of (k, g) \<Rightarrow> case entry of (name, p) \<Rightarrow>
        name = entry_name k \<and> report_title p = display_name k
        \<and> mismatch_count p = length (rows g)
        \<and> (\<exists>fg. get_group full_groups k = Inr fg \<and> total_count p = length (rows fg)
             \<and> count_zero_seq fg = Inr (zero_seq_count p)))"

text \<open>The three labelled counts that open every summary block.\<close>

definition count_lines :: "nat \<Rightarrow> nat \<Rightarrow> nat \<Rightarrow> (string \<times> string) list" where
  "count_lines n_total n_mismatch n_zero_seq =
     [(''Total Vehicles in this Source/Lane:'', str_nat n_total),
      (''Vehicles with Zero/Unidentified Sequence:'', str_nat n_zero_seq),
      (''Near-Mismatched Vehicles:'', str_nat n_mismatch)]"

text \<open>What a response and a load hold, for statements about concrete runs.\<close>

definition archive_entries :: "response \<Rightarrow> (string \<times> pdf) list" where
  "archive_entries r = (case r of Redirect f \<Rightarrow> [] | SendFile zf name f \<Rightarrow> zf)"

definition loaded_mismatch :: "read_error + dataframe \<Rightarrow> row list" where
  "loaded_mismatch file_stream =
     (case process_excel_data file_stream of Inl e \<Rightarrow> [] | Inr (mismatch_df, count, full_df) \<Rightarrow> rows mismatch_df)"

text \<open>
  The spec's words for the archive: the distinct sanitized source names among the mismatch
  rows, the sanitized name being the sentinel-substituted source made safe for a file name.
\<close>

definition sanitized_source_names :: "row list \<Rightarrow> string list" where
  "sanitized_source_names rs =
     remdups (map (\<lambda>r. secure_filename (display_name (astype_str (r SOURCE_COL)))) rs)"

text \<open>
  The spec's words for a zero or unidentified sequence: null, empty after trimming, the
  trimmed literal \<^verbatim>\<open>0\<close>, or \<^verbatim>\<open>unidentified\<close> in any letter case after trimming; and a
  present cell that is empty after trimming.
\<close>

definition spec_zero_sequence :: "cell \<Rightarrow> bool" where
  "spec_zero_sequence c =
     (isnull c \<or> strip (astype_str c) = [] \<or> strip (astype_str c) = ''0''
      \<or> lower (strip (astype_str c)) = ''unidentified'')"

definition spec_zero_seq_count :: "dataframe \<Rightarrow> nat" where
  "spec_zero_seq_count df = length (filter (\<lambda>r. spec_zero_sequence (r SEQUENCE_COL)) (rows df))"

definition blank_text :: "cell \<Rightarrow> bool" where
  "blank_text c = (\<not> isnull c \<and> strip (astype_str c) = [])"

section \<open>Sample worksheets\<close>

text \<open>
  Worksheets for the concrete runs below. A row is given by its two plates, its source and
  its sequence cell; every other cell is missing.
\<close>

definition blank_row :: row where
  "blank_row = (\<lambda>_. NaN)"

definition plate_row :: "string \<Rightarrow> string \<Rightarrow> string \<Rightarrow> cell \<Rightarrow> row" where
  "plate_row anpr tc src seq =
     blank_row(ANPR_COL := Text anpr, TC_COL := Text tc, SOURCE_COL := Text src, SEQUENCE_COL := seq)"

definition required_columns_df :: dataframe where
  "required_columns_df =
     \<lparr>columns = [ANPR_COL, TC_COL, SOURCE_COL],
      rows = [plate_row ''abc123'' ''ABD123'' ''L1'' NaN]\<rparr>"

definition two_lanes_df :: dataframe where
  "two_lanes_df =
     \<lparr>columns = [SEQUENCE_COL, ANPR_COL, TC_COL, SOURCE_COL],
      rows = [plate_row ''abc123'' ''ABD123'' '' L1'' (Text ''1''),
              plate_row ''XYZ999'' ''xyz999'' ''L1'' (Text ''0''),
              plate_row ''KA01'' ''KA01'' ''L2'' NaN]\<rparr>"

definition unnamed_sources_df :: dataframe where
  "unnamed_sources_df =
     \<lparr>columns = [SEQUENCE_COL, ANPR_COL, TC_COL, SOURCE_COL],
      rows = [plate_row ''ABC123'' ''ABD123'' ''nan'' (Text ''1''),
              plate_row ''ABC123'' ''ABC12'' ''NAN'' (Text ''2'')]\<rparr>"

definition matching_plates_df :: dataframe where
  "matching_plates_df =
     \<lparr>columns = [ANPR_COL, TC_COL, SOURCE_COL],
      rows = [plate_row ''abc123'' ''ABC123 '' ''L1'' NaN]\<rparr>"

definition capitalised_sequence_df :: dataframe where
  "capitalised_sequence_df =
     \<lparr>columns = [SEQUENCE_COL, ANPR_COL, TC_COL, SOURCE_COL],
      rows = [plate_row ''ABC123'' ''ABD123'' ''L1'' (Text ''Unidentified'')]\<rparr>"

section \<open>Properties of the classifier\<close>

lemma fold_count_acc:
  "fold (\<lambda>i m. if P i then m + 1 else m) is (a::nat) = a + length (filter P is)"
  by (induction "is" arbitrary: a) auto

lemma count_mismatches_filter:
  "count_mismatches s1 s2 n = length (filter (\<lambda>i. s1 ! i \<noteq> s2 ! i) [0..<n])"
  unfolding count_mismatches_def by (simp add: fold_count_acc)

lemma zip_as_index_map:
  assumes "length xs = length ys"
  shows "zip xs ys = map (\<lambda>i. (xs ! i, ys ! i)) [0..<length xs]"
proof -
  have "map ((!) xs) [0..<length xs] = xs" "map ((!) ys) [0..<length xs] = ys"
    using assms map_nth [of xs] map_nth [of ys] by simp_all
  then have "zip xs ys = zip (map ((!) xs) [0..<length xs]) (map ((!) ys) [0..<length xs])"
    by (simp only:)
  also have "\<dots> = map (\<lambda>i. (xs ! i, ys ! i)) [0..<length xs]"
    by (simp add: zip_map_map zip_same_conv_map)
  finally show ?thesis .
qed

lemma hamming_distance_positions:
  assumes "length xs = length ys"
  shows "hamming_distance xs ys = length (filter (\<lambda>i. xs ! i \<noteq> ys ! i) [0..<length xs])"
proof -
  have "hamming_distance xs ys
      = length (filter (\<lambda>(x, y). x \<noteq> y) (map (\<lambda>i. (xs ! i, ys ! i)) [0..<length xs]))"
    unfolding hamming_distance_def using zip_as_index_map [OF assms] by simp
  also have "\<dots> = length (filter (\<lambda>i. xs ! i \<noteq> ys ! i) [0..<length xs])"
    by (simp add: filter_map comp_def)
  finally show ?thesis .
qed

lemma hamming_distance_card:
  assumes "length xs = length ys"
  shows "hamming_distance xs ys = card {i. i < length xs \<and> xs ! i \<noteq> ys ! i}"
proof -
  let ?l = "filter (\<lambda>i. xs ! i \<noteq> ys ! i) [0..<length xs]"
  have s: "{i. i < length xs \<and> xs ! i \<noteq> ys ! i} = set ?l"
    by auto
  have "distinct ?l"
    by simp
  then have "card (set ?l) = length ?l"
    by (rule distinct_card)
  then show ?thesis
    using assms s by (simp only: hamming_distance_positions)
qed

lemma hamming_distance_same: "hamming_distance xs xs = 0"
  by (simp add: hamming_distance_def zip_same_conv_map filter_map comp_def)

lemma check_same_length:
  assumes "length (strip a) = length (strip b)"
  shows "check_exactly_one_mismatch_or_missing a b = (hamming_distance (strip a) (strip b) = 1)"
proof (cases "strip a = strip b")
  case True
  then show ?thesis
    by (simp add: check_exactly_one_mismatch_or_missing_def hamming_distance_same)
next
  case False
  then show ?thesis
    using assms
    by (simp add: check_exactly_one_mismatch_or_missing_def Let_def
        count_mismatches_filter hamming_distance_positions)
qed

lemma check_refl: "\<not> check_exactly_one_mismatch_or_missing s s"
  by (simp add: check_exactly_one_mismatch_or_missing_def)

text \<open>
  Claim C1. For strings whose trimmed forms have equal length, the classifier returns true
  exactly when the trimmed forms differ in exactly one character position (Hamming distance
  1, equivalently exactly one index below the length holds different characters); and the
  classifier returns false on every pair of identical strings.
\<close>

theorem C1_same_length_hamming_one:
  "(length (strip a) = length (strip b) \<longrightarrow>
      check_exactly_one_mismatch_or_missing a b = (hamming_distance (strip a) (strip b) = 1)
    \<and> hamming_distance (strip a) (strip b)
        = card {i. i < length (strip a) \<and> strip a ! i \<noteq> strip b ! i})
   \<and> \<not> check_exactly_one_mismatch_or_missing s s"
  using check_same_length hamming_distance_card check_refl by blast

theorem C1_same_length_hamming_one_witness:
  "length (strip ''ABC123 '') = length (strip ''ABD123'')
   \<and> check_exactly_one_mismatch_or_missing ''ABC123 '' ''ABD123''
   \<and> hamming_distance (strip ''ABC123 '') (strip ''ABD123'') = 1
   \<and> card {i. i < length (strip ''ABC123 '') \<and> strip ''ABC123 '' ! i \<noteq> strip ''ABD123'' ! i} = 1
   \<and> \<not> check_exactly_one_mismatch_or_missing ''ABC123'' ''ABC123''"
  using C1_same_length_hamming_one [of "''ABC123 ''" "''ABD123''" "''ABC123''"]
  by (simp add: strip_def is_space_def hamming_distance_def)

lemma deletion_loop_ex:
  "deletion_loop l s ks = (\<exists>k\<in>set ks. take k l @ drop (Suc k) l = s)"
  by (induction ks) auto

lemma check_length_differ_one:
  assumes "\<bar>int (length (strip a)) - int (length (strip b))\<bar> = 1"
  shows "check_exactly_one_mismatch_or_missing a b =
     (let s1 = strip a; s2 = strip b;
          longer = (if length s1 < length s2 then s2 else s1);
          shorter = (if length s1 < length s2 then s1 else s2)
      in \<exists>k<length longer. take k longer @ drop (Suc k) longer = shorter)"
proof -
  from assms have ne: "length (strip a) \<noteq> length (strip b)" by auto
  then have "strip a \<noteq> strip b" by auto
  with ne assms show ?thesis
    by (auto simp add: check_exactly_one_mismatch_or_missing_def Let_def deletion_loop_ex)
qed

lemma check_length_differ_more:
  assumes "2 \<le> \<bar>int (length (strip a)) - int (length (strip b))\<bar>"
  shows "\<not> check_exactly_one_mismatch_or_missing a b"
proof -
  from assms have ne: "length (strip a) \<noteq> length (strip b)" by auto
  then have "strip a \<noteq> strip b" by auto
  with ne assms show ?thesis
    by (simp add: check_exactly_one_mismatch_or_missing_def Let_def)
qed

text \<open>
  Claim C2. When the trimmed lengths differ by exactly 1, the classifier returns true exactly
  when some position \<open>k\<close> below the length of the longer string exists such that the prefix
  before \<open>k\<close> followed by the suffix after \<open>k\<close> is the shorter string; when the trimmed
  lengths differ by 2 or more, the classifier returns false.
\<close>

theorem C2_one_deletion:
  "(\<bar>int (length (strip a)) - int (length (strip b))\<bar> = 1 \<longrightarrow>
      check_exactly_one_mismatch_or_missing a b =
        (let s1 = strip a; s2 = strip b;
             longer = (if length s1 < length s2 then s2 else s1);
             shorter = (if length s1 < length s2 then s1 else s2)
         in \<exists>k<length longer. take k longer @ drop (Suc k) longer = shorter))
   \<and> (2 \<le> \<bar>int (length (strip c)) - int (length (strip d))\<bar> \<longrightarrow>
      \<not> check_exactly_one_mismatch_or_missing c d)"
  using check_length_differ_one check_length_differ_more by blast

theorem C2_one_deletion_witness:
  "\<bar>int (length (strip ''ABC12'')) - int (length (strip ''ABC123''))\<bar> = 1
   \<and> check_exactly_one_mismatch_or_missing ''ABC12'' ''ABC123''
   \<and> (\<exists>k<length ''ABC123''. take k ''ABC123'' @ drop (Suc k) ''ABC123'' = ''ABC12'')
   \<and> 2 \<le> \<bar>int (length (strip ''AB'')) - int (length (strip ''ABCD''))\<bar>
   \<and> \<not> check_exactly_one_mismatch_or_missing ''AB'' ''ABCD''"
  using C2_one_deletion [of "''ABC12''" "''ABC123''" "''AB''" "''ABCD''"]
  by (simp add: strip_def is_space_def check_exactly_one_mismatch_or_missing_def)

text \<open>
  Claim C10. The classifier is symmetric in its two arguments.
\<close>

theorem C10_symmetric:
  "check_exactly_one_mismatch_or_missing a b = check_exactly_one_mismatch_or_missing b a"
proof -
  have "count_mismatches (strip a) (strip b) n = count_mismatches (strip b) (strip a) n" for n
    unfolding count_mismatches_filter by (rule arg_cong [where f = length]) (rule filter_cong, auto)
  then show ?thesis
    by (auto simp add: check_exactly_one_mismatch_or_missing_def Let_def)
qed

section \<open>Evaluation of concrete runs\<close>

lemmas text_defs = strip_def is_space_def upper_def upper_char_def lower_def lower_char_def
  digit_char_def str_nat.simps

lemmas column_defs = ANPR_COL_def TC_COL_def SOURCE_COL_def SEQUENCE_COL_def COLUMNS_TO_KEEP_def

lemmas load_defs = process_excel_data_def clean_row_def filter_mask_def
  check_exactly_one_mismatch_or_missing_def count_mismatches_def Let_def

lemmas route_defs = upload_file_def allowed_file_def rsplit_dot_tail_def rsplit_dot_head_def
  ALLOWED_EXTENSIONS_def empty_df_def groupby_def group_keys_def get_group_def display_name_def

lemmas report_defs = create_pdf_report_def count_zero_seq_def zero_sequence_def reindex_def
  add_data_row_def

lemmas input_defs = blank_row_def plate_row_def

section \<open>Loading\<close>

lemma process_excel_data_missing:
  assumes "ANPR_COL \<notin> set (columns df) \<or> TC_COL \<notin> set (columns df) \<or> SOURCE_COL \<notin> set (columns df)"
  shows "process_excel_data (Inr df) = Inl missing_columns_message"
  using assms by (auto simp add: process_excel_data_def)

lemma process_excel_data_present:
  assumes "ANPR_COL \<in> set (columns df)" "TC_COL \<in> set (columns df)" "SOURCE_COL \<in> set (columns df)"
  shows "process_excel_data (Inr df) =
     Inr (df\<lparr>rows := filter filter_mask (map clean_row (rows df))\<rparr>,
          length (filter filter_mask (map clean_row (rows df))),
          df\<lparr>rows := map clean_row (rows df)\<rparr>)"
  using assms by (simp add: process_excel_data_def Let_def)

lemma process_excel_data_Inr:
  assumes "process_excel_data file_stream = Inr (mismatch_df, count, full_df)"
  obtains df where "file_stream = Inr df"
    and "ANPR_COL \<in> set (columns df)" "TC_COL \<in> set (columns df)" "SOURCE_COL \<in> set (columns df)"
    and "full_df = df\<lparr>rows := map clean_row (rows df)\<rparr>"
    and "mismatch_df = full_df\<lparr>rows := filter filter_mask (rows full_df)\<rparr>"
    and "count = length (rows mismatch_df)"
proof (cases file_stream)
  case (Inl e)
  with assms show ?thesis
    by (cases e) (simp_all add: process_excel_data_def)
next
  case (Inr df)
  with assms have cols: "ANPR_COL \<in> set (columns df)" "TC_COL \<in> set (columns df)"
      "SOURCE_COL \<in> set (columns df)"
    by (auto simp add: process_excel_data_def split: if_splits)
  with assms Inr have "full_df = df\<lparr>rows := map clean_row (rows df)\<rparr>"
    "mismatch_df = full_df\<lparr>rows := filter filter_mask (rows full_df)\<rparr>"
    "count = length (rows mismatch_df)"
    by (auto simp add: process_excel_data_present)
  with Inr cols show ?thesis
    using that by blast
qed

section \<open>Sample rows and loads\<close>

lemma plate_row_cells:
  "plate_row a t s q ANPR_COL = Text a"
  "plate_row a t s q TC_COL = Text t"
  "plate_row a t s q SOURCE_COL = Text s"
  "plate_row a t s q SEQUENCE_COL = q"
  by (simp_all add: plate_row_def column_defs)

lemma clean_plate_row:
  "clean_row (plate_row a t s q) = plate_row (upper (strip a)) (upper (strip t)) (strip s) q"
  by (rule ext) (simp add: clean_row_def plate_row_def column_defs Let_def)

lemma filter_mask_plate_row:
  "filter_mask (plate_row a t s q) = check_exactly_one_mismatch_or_missing a t"
  by (simp add: filter_mask_def plate_row_cells)

lemma check_abc123_abd123: "check_exactly_one_mismatch_or_missing ''ABC123'' ''ABD123''"
  by (simp add: check_exactly_one_mismatch_or_missing_def strip_def is_space_def count_mismatches_def)

lemma check_abc123_abc12: "check_exactly_one_mismatch_or_missing ''ABC123'' ''ABC12''"
  by (simp add: check_exactly_one_mismatch_or_missing_def strip_def is_space_def)

lemma allowed_plates_xlsx: "allowed_file ''plates.xlsx''"
  by (simp add: allowed_file_def rsplit_dot_tail_def lower_def lower_char_def ALLOWED_EXTENSIONS_def)

lemma load_two_lanes:
  "process_excel_data (Inr two_lanes_df) =
     Inr (\<lparr>columns = [SEQUENCE_COL, ANPR_COL, TC_COL, SOURCE_COL],
           rows = [plate_row ''ABC123'' ''ABD123'' ''L1'' (Text ''1'')]\<rparr>,
          1,
          \<lparr>columns = [SEQUENCE_COL, ANPR_COL, TC_COL, SOURCE_COL],
           rows = [plate_row ''ABC123'' ''ABD123'' ''L1'' (Text ''1''),
                   plate_row ''XYZ999'' ''XYZ999'' ''L1'' (Text ''0''),
                   plate_row ''KA01'' ''KA01'' ''L2'' NaN]\<rparr>)"
proof -
  have n: "upper (strip ''abc123'') = ''ABC123''" "upper (strip ''ABD123'') = ''ABD123''"
    "upper (strip ''XYZ999'') = ''XYZ999''" "upper (strip ''xyz999'') = ''XYZ999''"
    "upper (strip ''KA01'') = ''KA01''" "strip '' L1'' = ''L1''" "strip ''L1'' = ''L1''"
    "strip ''L2'' = ''L2''"
    by (simp_all add: text_defs)
  show ?thesis
    by (simp add: process_excel_data_def two_lanes_df_def Let_def clean_plate_row
        filter_mask_plate_row n check_abc123_abd123 check_refl)
qed

lemma load_matching_plates:
  "process_excel_data (Inr matching_plates_df) =
     Inr (\<lparr>columns = [ANPR_COL, TC_COL, SOURCE_COL], rows = []\<rparr>,
          0,
          \<lparr>columns = [ANPR_COL, TC_COL, SOURCE_COL],
           rows = [plate_row ''ABC123'' ''ABC123'' ''L1'' NaN]\<rparr>)"
proof -
  have n: "upper (strip ''abc123'') = ''ABC123''" "upper (strip ''ABC123 '') = ''ABC123''"
    "strip ''L1'' = ''L1''"
    by (simp_all add: text_defs)
  show ?thesis
    by (simp add: process_excel_data_def matching_plates_df_def Let_def clean_plate_row
        filter_mask_plate_row n check_refl)
qed

text \<open>
  Claim C7. When the parsed worksheet lacks any of the three required columns, loading
  fails with the missing-columns message; the route never answers with an archive, and for an
  accepted file name it redirects with that message flashed as a processing error.
\<close>

theorem C7_missing_required_column:
  assumes "ANPR_COL \<notin> set (columns df) \<or> TC_COL \<notin> set (columns df) \<or> SOURCE_COL \<notin> set (columns df)"
    and "stream file = Inr df"
  shows "process_excel_data (stream file) = Inl missing_columns_message
    \<and> (\<forall>zf name msg. upload_file (Some file) \<noteq> SendFile zf name msg)
    \<and> (filename file \<noteq> [] \<and> allowed_file (filename file) \<longrightarrow>
         upload_file (Some file) = Redirect (''Processing Error: '' @ missing_columns_message, error))"
  using assms by (auto simp add: upload_file_def process_excel_data_def)

theorem C7_missing_required_column_witness:
  "SOURCE_COL \<notin> set [''ANPR Plate Number'', ''TC_PLATE Number'']
   \<and> process_excel_data (Inr \<lparr>columns = [''ANPR Plate Number'', ''TC_PLATE Number''], rows = []\<rparr>)
       = Inl ''Excel missing required columns: **ANPR Plate Number**, **TC_PLATE Number**, or **source**.''
   \<and> upload_file (Some \<lparr>filename = ''plates.xlsx'',
         stream = Inr \<lparr>columns = [''ANPR Plate Number'', ''TC_PLATE Number''], rows = []\<rparr>\<rparr>)
       = Redirect (''Processing Error: Excel missing required columns: **ANPR Plate Number**, **TC_PLATE Number**, or **source**.'', error)"
  using C7_missing_required_column [of "\<lparr>columns = [''ANPR Plate Number'', ''TC_PLATE Number''], rows = []\<rparr>"
      "\<lparr>filename = ''plates.xlsx'',
         stream = Inr \<lparr>columns = [''ANPR Plate Number'', ''TC_PLATE Number''], rows = []\<rparr>\<rparr>"]
  by (simp add: SOURCE_COL_def ANPR_COL_def TC_COL_def missing_columns_message_def allowed_file_def
      rsplit_dot_tail_def lower_def lower_char_def ALLOWED_EXTENSIONS_def)

text \<open>
  Claim C8. When loading succeeds and the mismatch set has no row, the route redirects
  with the message that no near-mismatch was found, flashed in the success category, and the
  count of mismatches is 0: no archive is produced and no error is reported.
\<close>

theorem C8_no_mismatch_is_success:
  assumes "filename file \<noteq> []" and "allowed_file (filename file)"
    and "process_excel_data (stream file) = Inr (mismatch_df, count, full_df)"
    and "rows mismatch_df = []"
  shows "upload_file (Some file) =
      Redirect (check_mark @ '' File processed successfully! No near-mismatches found.'', success)
    \<and> count = 0"
proof -
  from assms(3) have "count = length (rows mismatch_df)"
    by (rule process_excel_data_Inr)
  with assms show ?thesis
    by (simp add: upload_file_def empty_df_def)
qed

theorem C8_no_mismatch_is_success_witness:
  "filename \<lparr>filename = ''plates.xlsx'', stream = Inr matching_plates_df\<rparr> \<noteq> []
   \<and> allowed_file ''plates.xlsx''
   \<and> loaded_mismatch (Inr matching_plates_df) = []
   \<and> upload_file (Some \<lparr>filename = ''plates.xlsx'', stream = Inr matching_plates_df\<rparr>) =
       Redirect (check_mark @ '' File processed successfully! No near-mismatches found.'', success)"
  using C8_no_mismatch_is_success
    [of "\<lparr>filename = ''plates.xlsx'', stream = Inr matching_plates_df\<rparr>"
        "\<lparr>columns = [ANPR_COL, TC_COL, SOURCE_COL], rows = []\<rparr>" 0
        "\<lparr>columns = [ANPR_COL, TC_COL, SOURCE_COL],
           rows = [plate_row ''ABC123'' ''ABC123'' ''L1'' NaN]\<rparr>"]
  by (simp add: allowed_plates_xlsx load_matching_plates loaded_mismatch_def)

section \<open>Grouping and report writing\<close>

lemma groupby_keys: "map fst (groupby col df) = group_keys col df"
  by (simp add: groupby_def comp_def)

lemma group_keys_distinct: "distinct (group_keys col df)"
  by (simp add: group_keys_def)

lemma group_keys_set:
  "set (group_keys col df) = {k. \<exists>r\<in>set (rows df). r col = Text k}"
proof (intro set_eqI iffI)
  fix k
  assume "k \<in> set (group_keys col df)"
  then obtain r where r: "r \<in> set (rows df)" "\<not> isnull (r col)" "k = astype_str (r col)"
    by (auto simp add: group_keys_def)
  then have "r col = Text k"
    by (cases "r col") simp_all
  with r show "k \<in> {k. \<exists>r\<in>set (rows df). r col = Text k}"
    by blast
next
  fix k
  assume "k \<in> {k. \<exists>r\<in>set (rows df). r col = Text k}"
  then obtain r where r: "r \<in> set (rows df)" "r col = Text k"
    by blast
  then have "\<not> isnull (r col)" "astype_str (r col) = k"
    by simp_all
  with r(1) have "k \<in> (\<lambda>r. astype_str (r col)) ` {r \<in> set (rows df). \<not> isnull (r col)}"
    by blast
  then show "k \<in> set (group_keys col df)"
    by (simp add: group_keys_def)
qed

lemma get_group_groupby:
  "get_group (groupby col df) k =
     (if k \<in> set (group_keys col df)
      then Inr (df\<lparr>rows := filter (\<lambda>r. r col = Text k) (rows df)\<rparr>)
      else Inl (KeyError k))"
  by (simp add: get_group_def groupby_def map_of_map_restrict restrict_map_def)

lemma length_group_keys:
  "length (group_keys col df) = card {k. \<exists>r\<in>set (rows df). r col = Text k}"
  using group_keys_distinct [of col df] group_keys_set [of col df] distinct_card by fastforce

lemma print_summary_total: "\<exists>ls. print_summary t m z = Inr ls"
  by (simp add: print_summary_def truediv_def Let_def)

lemma create_pdf_report_Inr:
  assumes "create_pdf_report df_mismatch df_full_source source_name = Inr p"
  shows "report_title p = source_name"
    and "total_count p = length (rows df_full_source)"
    and "mismatch_count p = length (rows df_mismatch)"
    and "count_zero_seq df_full_source = Inr (zero_seq_count p)"
    and "print_summary (total_count p) (mismatch_count p) (zero_seq_count p) = Inr (summary_lines p)"
    and "table_rows p = map add_data_row (rows (reindex COLUMNS_TO_KEEP (Text []) df_mismatch))"
  using assms by (auto simp add: create_pdf_report_def Let_def split: sum.splits)

lemma create_pdf_report_succeeds:
  assumes "SEQUENCE_COL \<in> set (columns df_full_source)"
  shows "\<exists>p. create_pdf_report df_mismatch df_full_source source_name = Inr p"
proof -
  obtain ls where "print_summary (length (rows df_full_source)) (length (rows df_mismatch))
      (length (filter (\<lambda>r. zero_sequence (r SEQUENCE_COL)) (rows df_full_source))) = Inr ls"
    using print_summary_total by blast
  with assms show ?thesis
    by (simp add: create_pdf_report_def Let_def count_zero_seq_def)
qed

lemma write_reports_Inr:
  assumes "write_reports gs full_groups (zf0, n0) = Inr (zf, n)"
  shows "\<exists>zf'. zf = zf0 @ zf' \<and> list_all2 (report_of_group full_groups) gs zf'
           \<and> n = n0 + length gs"
  using assms
proof (induction gs arbitrary: zf0 n0)
  case Nil
  then show ?case by simp
next
  case (Cons kg gs)
  obtain k g where kg: "kg = (k, g)" by (cases kg)
  from Cons.prems kg obtain fg where fg: "get_group full_groups k = Inr fg"
    by (auto split: sum.splits)
  from Cons.prems kg fg obtain p where p: "create_pdf_report g fg (display_name k) = Inr p"
    by (auto split: sum.splits)
  from Cons.prems kg fg p
  have "write_reports gs full_groups (zf0 @ [(entry_name k, p)], n0 + 1) = Inr (zf, n)"
    by (simp add: entry_name_def)
  from Cons.IH [OF this] obtain zf' where
    zf': "zf = (zf0 @ [(entry_name k, p)]) @ zf'" "list_all2 (report_of_group full_groups) gs zf'"
      "n = n0 + 1 + length gs"
    by blast
  have "report_of_group full_groups (k, g) (entry_name k, p)"
    using fg create_pdf_report_Inr [OF p] by (simp add: report_of_group_def)
  with zf' kg show ?case
    by (intro exI [of _ "(entry_name k, p) # zf'"]) simp
qed

lemma write_reports_succeeds:
  assumes "\<forall>(k, g)\<in>set gs. \<exists>fg. get_group full_groups k = Inr fg \<and> SEQUENCE_COL \<in> set (columns fg)"
  shows "\<exists>res. write_reports gs full_groups acc = Inr res"
  using assms
proof (induction gs arbitrary: acc)
  case Nil
  then show ?case by (cases acc) simp
next
  case (Cons kg gs)
  obtain k g where kg: "kg = (k, g)" by (cases kg)
  obtain zf n where acc: "acc = (zf, n)" by (cases acc)
  from Cons.prems kg obtain fg where fg: "get_group full_groups k = Inr fg"
      "SEQUENCE_COL \<in> set (columns fg)"
    by auto
  obtain p where p: "create_pdf_report g fg (display_name k) = Inr p"
    using create_pdf_report_succeeds [OF fg(2)] by blast
  from Cons.prems have "\<forall>(k, g)\<in>set gs. \<exists>fg. get_group full_groups k = Inr fg \<and> SEQUENCE_COL \<in> set (columns fg)"
    by simp
  from Cons.IH [OF this] show ?case
    using kg acc fg p by (simp add: Let_def)
qed

lemma mismatch_group_in_full:
  assumes "mismatch_df = full_df\<lparr>rows := filter keep (rows full_df)\<rparr>"
    and "(k, g) \<in> set (groupby col mismatch_df)"
  shows "\<exists>fg. get_group (groupby col full_df) k = Inr fg \<and> length (rows g) \<le> length (rows fg)
           \<and> columns fg = columns full_df \<and> 1 \<le> length (rows g)"
proof -
  from assms(2) have k: "k \<in> set (group_keys col mismatch_df)"
    and g: "g = mismatch_df\<lparr>rows := filter (\<lambda>r. r col = Text k) (rows mismatch_df)\<rparr>"
    by (auto simp add: groupby_def)
  from k obtain r where r: "r \<in> set (rows mismatch_df)" "r col = Text k"
    by (auto simp add: group_keys_set)
  with assms(1) have "r \<in> set (rows full_df)"
    by simp
  with r(2) have kf: "k \<in> set (group_keys col full_df)"
    by (auto simp add: group_keys_set)
  let ?fg = "full_df\<lparr>rows := filter (\<lambda>r. r col = Text k) (rows full_df)\<rparr>"
  have get: "get_group (groupby col full_df) k = Inr ?fg"
    using kf by (simp add: get_group_groupby)
  have "rows g = filter keep (filter (\<lambda>r. r col = Text k) (rows full_df))"
    using g assms(1) by (simp add: conj_commute)
  then have "length (rows g) \<le> length (filter (\<lambda>r. r col = Text k) (rows full_df))"
    by (simp only: length_filter_le)
  then have le: "length (rows g) \<le> length (rows ?fg)"
    by simp
  from r g have "r \<in> set (rows g)"
    by simp
  then have "rows g \<noteq> []"
    by auto
  then have "1 \<le> length (rows g)"
    by (cases "rows g") simp_all
  with get le show ?thesis
    by simp
qed

text \<open>
  Claim C9. After a successful load the rows of the mismatch set are a subsequence of the
  rows of the full dataset, unchanged, under the same columns; every mismatch row's source
  cell occurs among the source cells of the full dataset; every group of mismatch rows has a
  group of the full dataset under the same source, at least as long; and in every report
  written the mismatch count is at most the total count.
\<close>

theorem C9_mismatch_subset:
  assumes "process_excel_data file_stream = Inr (mismatch_df, count, full_df)"
  shows "subseq (rows mismatch_df) (rows full_df)
    \<and> columns mismatch_df = columns full_df
    \<and> count = length (rows mismatch_df)
    \<and> (\<forall>r\<in>set (rows mismatch_df). r SOURCE_COL \<in> (\<lambda>r. r SOURCE_COL) ` set (rows full_df))
    \<and> (\<forall>(k, g)\<in>set (groupby SOURCE_COL mismatch_df).
          \<exists>fg. get_group (groupby SOURCE_COL full_df) k = Inr fg
               \<and> length (rows g) \<le> length (rows fg))
    \<and> (\<forall>zf n. write_reports (groupby SOURCE_COL mismatch_df) (groupby SOURCE_COL full_df) ([], 0)
                  = Inr (zf, n)
          \<longrightarrow> (\<forall>(name, p)\<in>set zf. mismatch_count p \<le> total_count p))"
proof -
  from assms obtain df where
    mm: "mismatch_df = full_df\<lparr>rows := filter filter_mask (rows full_df)\<rparr>"
    and cnt: "count = length (rows mismatch_df)"
    by (rule process_excel_data_Inr)
  have sub: "subseq (rows mismatch_df) (rows full_df)"
    using mm by simp
  have cols: "columns mismatch_df = columns full_df"
    using mm by simp
  have src: "\<forall>r\<in>set (rows mismatch_df). r SOURCE_COL \<in> (\<lambda>r. r SOURCE_COL) ` set (rows full_df)"
    using mm by simp
  have grp: "\<forall>(k, g)\<in>set (groupby SOURCE_COL mismatch_df).
          \<exists>fg. get_group (groupby SOURCE_COL full_df) k = Inr fg
               \<and> length (rows g) \<le> length (rows fg)"
    using mismatch_group_in_full [OF mm] by blast
  have rep: "\<forall>(name, p)\<in>set zf. mismatch_count p \<le> total_count p"
    if w: "write_reports (groupby SOURCE_COL mismatch_df) (groupby SOURCE_COL full_df) ([], 0)
                  = Inr (zf, n)" for zf n
  proof -
    from write_reports_Inr [OF w]
    have all2: "list_all2 (report_of_group (groupby SOURCE_COL full_df))
        (groupby SOURCE_COL mismatch_df) zf"
      by simp
    show ?thesis
    proof (clarify)
      fix name p
      assume "(name, p) \<in> set zf"
      then obtain i where i: "i < length zf" "zf ! i = (name, p)"
        by (auto simp add: in_set_conv_nth)
      let ?kg = "groupby SOURCE_COL mismatch_df ! i"
      obtain k g where kg: "?kg = (k, g)" by (cases ?kg)
      from all2 i have len: "i < length (groupby SOURCE_COL mismatch_df)"
        and rel: "report_of_group (groupby SOURCE_COL full_df) ?kg (name, p)"
        by (auto simp add: list_all2_conv_all_nth)
      from len kg have mem: "(k, g) \<in> set (groupby SOURCE_COL mismatch_df)"
        by (metis nth_mem)
      from rel kg obtain fg where fg: "get_group (groupby SOURCE_COL full_df) k = Inr fg"
          "total_count p = length (rows fg)" "mismatch_count p = length (rows g)"
        by (auto simp add: report_of_group_def)
      from mismatch_group_in_full [OF mm mem] fg show "mismatch_count p \<le> total_count p"
        by auto
    qed
  qed
  from sub cols cnt src grp rep show ?thesis
    by blast
qed

theorem C9_mismatch_subset_witness:
  "process_excel_data (Inr two_lanes_df) =
     Inr (\<lparr>columns = [SEQUENCE_COL, ANPR_COL, TC_COL, SOURCE_COL],
           rows = [plate_row ''ABC123'' ''ABD123'' ''L1'' (Text ''1'')]\<rparr>,
          1,
          \<lparr>columns = [SEQUENCE_COL, ANPR_COL, TC_COL, SOURCE_COL],
           rows = [plate_row ''ABC123'' ''ABD123'' ''L1'' (Text ''1''),
                   plate_row ''XYZ999'' ''XYZ999'' ''L1'' (Text ''0''),
                   plate_row ''KA01'' ''KA01'' ''L2'' NaN]\<rparr>)
   \<and> subseq [plate_row ''ABC123'' ''ABD123'' ''L1'' (Text ''1'')]
        [plate_row ''ABC123'' ''ABD123'' ''L1'' (Text ''1''),
         plate_row ''XYZ999'' ''XYZ999'' ''L1'' (Text ''0''),
         plate_row ''KA01'' ''KA01'' ''L2'' NaN]
   \<and> Text ''L1'' \<in> (\<lambda>r. r SOURCE_COL) `
        set [plate_row ''ABC123'' ''ABD123'' ''L1'' (Text ''1''),
             plate_row ''XYZ999'' ''XYZ999'' ''L1'' (Text ''0''),
             plate_row ''KA01'' ''KA01'' ''L2'' NaN]"
  using C9_mismatch_subset [OF load_two_lanes]
  by (simp add: load_two_lanes plate_row_cells)

section \<open>The summary block\<close>

lemma print_summary_positive:
  assumes "0 < t"
  shows "print_summary t m z =
        Inr (count_lines t m z @
             [(''Mismatch Percentage:'',
               format_2f (binary64 (binary64 (of_nat m / of_nat t) * 100)) @ ''%'')])"
  using assms by (simp add: print_summary_def truediv_def fmul_def count_lines_def Let_def)

text \<open>
  Claim C6, as the code has it. With a positive total the summary ends with the percentage
  line, whose value is the binary64 product of the binary64 quotient of the two counts and
  100, printed with two fraction digits and a percent sign; with total 0 the summary is the
  three counts alone; and the division never raises.
\<close>

theorem C6_percentage_line:
  "(0 < t \<longrightarrow>
      print_summary t m z =
        Inr (count_lines t m z @
             [(''Mismatch Percentage:'',
               format_2f (binary64 (binary64 (of_nat m / of_nat t) * 100)) @ ''%'')]))
   \<and> print_summary 0 m z = Inr (count_lines 0 m z)
   \<and> print_summary t m z \<noteq> Inl ZeroDivisionError"
  by (simp add: print_summary_def truediv_def fmul_def count_lines_def Let_def)

lemma percentage_1_of_3: "format_2f (binary64 (binary64 (1 / 3) * 100)) = ''33.33''"
  by code_simp

theorem C6_percentage_line_witness:
  "(0::nat) < 3
   \<and> print_summary 3 1 0 =
       Inr [(''Total Vehicles in this Source/Lane:'', ''3''),
            (''Vehicles with Zero/Unidentified Sequence:'', ''0''),
            (''Near-Mismatched Vehicles:'', ''1''),
            (''Mismatch Percentage:'', ''33.33%'')]
   \<and> print_summary 0 0 0 =
       Inr [(''Total Vehicles in this Source/Lane:'', ''0''),
            (''Vehicles with Zero/Unidentified Sequence:'', ''0''),
            (''Near-Mismatched Vehicles:'', ''0'')]"
  using C6_percentage_line [of 3 1 0] C6_percentage_line [of 0 0 0] percentage_1_of_3
  by (simp add: count_lines_def digit_char_def str_nat.simps)

text \<open>
  The quotient is rounded before it is multiplied by 100, so the printed digits are not
  always those of the exact percentage: 23 of 160 is exactly 14.375 and prints as 14.37,
  49 of 160 is exactly 30.625 and prints as 30.63, while the exact values print as 14.38 and
  30.62.
\<close>

lemma percentage_23_of_160: "format_2f (binary64 (binary64 (23 / 160) * 100)) = ''14.37''"
  by code_simp

lemma percentage_49_of_160: "format_2f (binary64 (binary64 (49 / 160) * 100)) = ''30.63''"
  by code_simp

lemma exact_23_of_160: "format_2f (100 * 23 / 160) = ''14.38''"
  by code_simp

lemma exact_49_of_160: "format_2f (100 * 49 / 160) = ''30.62''"
  by code_simp

theorem C6_counterexample:
  "print_summary 160 23 0 =
     Inr [(''Total Vehicles in this Source/Lane:'', ''160''),
          (''Vehicles with Zero/Unidentified Sequence:'', ''0''),
          (''Near-Mismatched Vehicles:'', ''23''),
          (''Mismatch Percentage:'', ''14.37%'')]
   \<and> format_2f (100 * 23 / 160) = ''14.38''
   \<and> print_summary 160 49 0 =
     Inr [(''Total Vehicles in this Source/Lane:'', ''160''),
          (''Vehicles with Zero/Unidentified Sequence:'', ''0''),
          (''Near-Mismatched Vehicles:'', ''49''),
          (''Mismatch Percentage:'', ''30.63%'')]
   \<and> format_2f (100 * 49 / 160) = ''30.62''"
proof -
  have a: "print_summary 160 23 0 =
     Inr [(''Total Vehicles in this Source/Lane:'', ''160''),
          (''Vehicles with Zero/Unidentified Sequence:'', ''0''),
          (''Near-Mismatched Vehicles:'', ''23''),
          (''Mismatch Percentage:'', ''14.37%'')]"
    using print_summary_positive [of 160 23 0]
    by (simp add: percentage_23_of_160 count_lines_def digit_char_def str_nat.simps)
  have b: "print_summary 160 49 0 =
     Inr [(''Total Vehicles in this Source/Lane:'', ''160''),
          (''Vehicles with Zero/Unidentified Sequence:'', ''0''),
          (''Near-Mismatched Vehicles:'', ''49''),
          (''Mismatch Percentage:'', ''30.63%'')]"
    using print_summary_positive [of 160 49 0]
    by (simp add: percentage_49_of_160 count_lines_def digit_char_def str_nat.simps)
  from a exact_23_of_160 b exact_49_of_160 show ?thesis
    by (intro conjI)
qed

section \<open>The zero-sequence count\<close>

lemma print_summary_second_line:
  assumes "print_summary t m z = Inr ls"
  shows "ls ! 1 = (''Vehicles with Zero/Unidentified Sequence:'', str_nat z)"
  using assms by (auto simp add: print_summary_def truediv_def Let_def split: if_splits)

text \<open>
  Claim C3, as the code has it. For a source group whose report is produced and whose full
  dataset holds no present sequence cell that is empty after trimming, the summary's
  zero-sequence count is the number of rows of the group's full dataset whose sequence cell is
  null, or, after trimming, is the literal \<^verbatim>\<open>0\<close> or exactly the lower-case text
  \<^verbatim>\<open>unidentified\<close>; that count is the value of the second line of the summary.
\<close>

theorem C3_zero_sequence_count:
  assumes "create_pdf_report df_mismatch df_full_source source_name = Inr p"
    and "\<forall>r\<in>set (rows df_full_source). \<not> blank_text (r SEQUENCE_COL)"
  shows "zero_seq_count p =
      length (filter
        (\<lambda>r. isnull (r SEQUENCE_COL) \<or> strip (astype_str (r SEQUENCE_COL)) = []
           \<or> strip (astype_str (r SEQUENCE_COL)) = ''0''
           \<or> strip (astype_str (r SEQUENCE_COL)) = ''unidentified'')
        (rows df_full_source))
    \<and> summary_lines p ! 1 =
        (''Vehicles with Zero/Unidentified Sequence:'', str_nat (zero_seq_count p))"
proof -
  have cnt: "count_zero_seq df_full_source = Inr (zero_seq_count p)"
    and ps: "print_summary (total_count p) (mismatch_count p) (zero_seq_count p)
        = Inr (summary_lines p)"
    using create_pdf_report_Inr [OF assms(1)] by simp_all
  have same: "zero_sequence (r SEQUENCE_COL) =
      (isnull (r SEQUENCE_COL) \<or> strip (astype_str (r SEQUENCE_COL)) = []
           \<or> strip (astype_str (r SEQUENCE_COL)) = ''0''
           \<or> strip (astype_str (r SEQUENCE_COL)) = ''unidentified'')"
    if "r \<in> set (rows df_full_source)" for r
    using assms(2) that by (auto simp add: zero_sequence_def blank_text_def)
  have "zero_seq_count p = length (filter (\<lambda>r. zero_sequence (r SEQUENCE_COL)) (rows df_full_source))"
    using cnt by (simp add: count_zero_seq_def split: if_splits)
  also have "\<dots> = length (filter
        (\<lambda>r. isnull (r SEQUENCE_COL) \<or> strip (astype_str (r SEQUENCE_COL)) = []
           \<or> strip (astype_str (r SEQUENCE_COL)) = ''0''
           \<or> strip (astype_str (r SEQUENCE_COL)) = ''unidentified'')
        (rows df_full_source))"
    by (rule arg_cong [where f = length], rule filter_cong) (simp_all add: same)
  finally have first: "zero_seq_count p = length (filter
        (\<lambda>r. isnull (r SEQUENCE_COL) \<or> strip (astype_str (r SEQUENCE_COL)) = []
           \<or> strip (astype_str (r SEQUENCE_COL)) = ''0''
           \<or> strip (astype_str (r SEQUENCE_COL)) = ''unidentified'')
        (rows df_full_source))" .
  have "summary_lines p ! 1 =
        (''Vehicles with Zero/Unidentified Sequence:'', str_nat (zero_seq_count p))"
    using ps by (rule print_summary_second_line)
  with first show ?thesis
    by simp
qed

theorem C3_zero_sequence_count_witness:
  "map (\<lambda>r. blank_text (r SEQUENCE_COL)) (rows two_lanes_df) = [False, False, False]
   \<and> map_sum id zero_seq_count (create_pdf_report two_lanes_df two_lanes_df ''L1'') = Inr 2
   \<and> length (filter
        (\<lambda>r. isnull (r SEQUENCE_COL) \<or> strip (astype_str (r SEQUENCE_COL)) = []
           \<or> strip (astype_str (r SEQUENCE_COL)) = ''0''
           \<or> strip (astype_str (r SEQUENCE_COL)) = ''unidentified'')
        (rows two_lanes_df)) = 2"
proof -
  have s: "strip ''1'' = ''1''" "strip ''0'' = ''0''"
    by (simp_all add: strip_def is_space_def)
  have nb: "\<forall>r\<in>set (rows two_lanes_df). \<not> blank_text (r SEQUENCE_COL)"
    by (simp add: two_lanes_df_def plate_row_cells blank_text_def s)
  have "SEQUENCE_COL \<in> set (columns two_lanes_df)"
    by (simp add: two_lanes_df_def)
  then obtain p where p: "create_pdf_report two_lanes_df two_lanes_df ''L1'' = Inr p"
    using create_pdf_report_succeeds by blast
  have n: "length (filter
        (\<lambda>r. isnull (r SEQUENCE_COL) \<or> strip (astype_str (r SEQUENCE_COL)) = []
           \<or> strip (astype_str (r SEQUENCE_COL)) = ''0''
           \<or> strip (astype_str (r SEQUENCE_COL)) = ''unidentified'')
        (rows two_lanes_df)) = 2"
    by (simp add: two_lanes_df_def plate_row_cells s)
  from C3_zero_sequence_count [OF p nb] n have "zero_seq_count p = 2"
    by simp
  moreover have "map (\<lambda>r. blank_text (r SEQUENCE_COL)) (rows two_lanes_df) = [False, False, False]"
    by (simp add: two_lanes_df_def plate_row_cells blank_text_def s)
  ultimately show ?thesis
    using p n by simp
qed

text \<open>
  The comparison with \<^verbatim>\<open>unidentified\<close> is case-sensitive: a group whose only row has the
  sequence \<^verbatim>\<open>Unidentified\<close> gets the count 0, where the spec's wording counts 1.
\<close>

lemma count_zero_seq_capitalised: "count_zero_seq capitalised_sequence_df = Inr 0"
proof -
  have "strip ''Unidentified'' = ''Unidentified''"
    by (simp add: strip_def is_space_def)
  then show ?thesis
    by (simp add: count_zero_seq_def capitalised_sequence_df_def plate_row_cells
        zero_sequence_def)
qed

theorem C3_counterexample:
  "map_sum id zero_seq_count
      (create_pdf_report capitalised_sequence_df capitalised_sequence_df ''L1'') = Inr 0
   \<and> spec_zero_seq_count capitalised_sequence_df = 1"
proof -
  obtain ls where "print_summary (length (rows capitalised_sequence_df))
      (length (rows capitalised_sequence_df)) 0 = Inr ls"
    using print_summary_total by blast
  then have "map_sum id zero_seq_count
      (create_pdf_report capitalised_sequence_df capitalised_sequence_df ''L1'') = Inr 0"
    by (simp add: create_pdf_report_def Let_def count_zero_seq_capitalised)
  moreover have "lower (strip ''Unidentified'') = ''unidentified''"
    by (simp add: text_defs)
  then have "spec_zero_seq_count capitalised_sequence_df = 1"
    by (simp add: spec_zero_seq_count_def capitalised_sequence_df_def plate_row_cells
        spec_zero_sequence_def)
  ultimately show ?thesis
    by simp
qed

section \<open>The archive\<close>

lemma upload_file_SendFile:
  assumes "upload_file (Some file) = SendFile zf name msg"
  obtains mismatch_df count full_df n where
    "process_excel_data (stream file) = Inr (mismatch_df, count, full_df)"
    "\<not> empty_df mismatch_df"
    "write_reports (groupby SOURCE_COL mismatch_df) (groupby SOURCE_COL full_df) ([], 0)
       = Inr (zf, n)"
    "msg = (found_message count n, success)"
  using assms
  by (auto simp add: upload_file_def split: if_splits sum.splits prod.splits)

lemma upload_file_sends:
  assumes "filename file \<noteq> []" and "allowed_file (filename file)"
    and load: "process_excel_data (stream file) = Inr (mismatch_df, count, full_df)"
    and "rows mismatch_df \<noteq> []"
    and seq: "SEQUENCE_COL \<in> set (columns full_df)"
  shows "\<exists>zf name msg. upload_file (Some file) = SendFile zf name msg"
proof -
  from load obtain df where
    cols: "SOURCE_COL \<in> set (columns df)"
    and full: "full_df = df\<lparr>rows := map clean_row (rows df)\<rparr>"
    and mm: "mismatch_df = full_df\<lparr>rows := filter filter_mask (rows full_df)\<rparr>"
    by (rule process_excel_data_Inr)
  from cols full mm have "columns mismatch_df \<noteq> []"
    by auto
  with assms(4) have ne: "\<not> empty_df mismatch_df"
    by (simp add: empty_df_def)
  have "\<forall>(k, g)\<in>set (groupby SOURCE_COL mismatch_df).
      \<exists>fg. get_group (groupby SOURCE_COL full_df) k = Inr fg \<and> SEQUENCE_COL \<in> set (columns fg)"
    using mismatch_group_in_full [OF mm] seq by fastforce
  then obtain res where "write_reports (groupby SOURCE_COL mismatch_df)
      (groupby SOURCE_COL full_df) ([], 0) = Inr res"
    using write_reports_succeeds by blast
  then show ?thesis
    using assms(1,2) load ne by (cases res) (simp add: upload_file_def)
qed

lemma report_of_group_names:
  assumes "list_all2 (report_of_group full_groups) gs zf"
  shows "map fst zf = map (entry_name \<circ> fst) gs"
    and "map (report_title \<circ> snd) zf = map (display_name \<circ> fst) gs"
  using assms
  by (induction rule: list_all2_induct) (auto simp add: report_of_group_def)

lemma archive_names:
  assumes "process_excel_data (stream file) = Inr (mismatch_df, count, full_df)"
    and "upload_file (Some file) = SendFile zf name msg"
  shows "map fst zf = map entry_name (group_keys SOURCE_COL mismatch_df)"
proof -
  from assms(2) obtain mismatch_df' count' full_df' n where
    "process_excel_data (stream file) = Inr (mismatch_df', count', full_df')"
    and "write_reports (groupby SOURCE_COL mismatch_df') (groupby SOURCE_COL full_df') ([], 0)
       = Inr (zf, n)"
    by (rule upload_file_SendFile)
  with assms(1) have "write_reports (groupby SOURCE_COL mismatch_df)
      (groupby SOURCE_COL full_df) ([], 0) = Inr (zf, n)"
    by simp
  from write_reports_Inr [OF this]
  have "list_all2 (report_of_group (groupby SOURCE_COL full_df)) (groupby SOURCE_COL mismatch_df) zf"
    by simp
  from report_of_group_names(1) [OF this] show ?thesis
    using groupby_keys [of SOURCE_COL mismatch_df] by (metis map_map)
qed

lemma clean_row_source: "\<exists>s. clean_row r SOURCE_COL = Text s"
  by (simp add: clean_row_def Let_def)

lemma sanitized_source_names_card:
  assumes "\<forall>r\<in>set rs. \<exists>s. r SOURCE_COL = Text s"
  shows "length (sanitized_source_names rs) =
     card ((\<lambda>k. secure_filename (display_name k)) ` {k. \<exists>r\<in>set rs. r SOURCE_COL = Text k})"
proof -
  have "set (sanitized_source_names rs) =
      (\<lambda>k. secure_filename (display_name k)) ` {k. \<exists>r\<in>set rs. r SOURCE_COL = Text k}"
  proof (intro set_eqI iffI)
    fix x
    assume "x \<in> set (sanitized_source_names rs)"
    then obtain r where r: "r \<in> set rs"
        "x = secure_filename (display_name (astype_str (r SOURCE_COL)))"
      by (auto simp add: sanitized_source_names_def)
    from assms r(1) obtain s where "r SOURCE_COL = Text s"
      by blast
    with r show "x \<in> (\<lambda>k. secure_filename (display_name k)) ` {k. \<exists>r\<in>set rs. r SOURCE_COL = Text k}"
      by auto
  next
    fix x
    assume "x \<in> (\<lambda>k. secure_filename (display_name k)) ` {k. \<exists>r\<in>set rs. r SOURCE_COL = Text k}"
    then obtain k r where "r \<in> set rs" "r SOURCE_COL = Text k"
        "x = secure_filename (display_name k)"
      by blast
    then have "x = secure_filename (display_name (astype_str (r SOURCE_COL)))" "r \<in> set rs"
      by simp_all
    then show "x \<in> set (sanitized_source_names rs)"
      by (auto simp add: sanitized_source_names_def)
  qed
  moreover have "distinct (sanitized_source_names rs)"
    by (simp add: sanitized_source_names_def)
  ultimately show ?thesis
    using distinct_card by fastforce
qed

text \<open>
  Claim C5, as the code has it. When the route answers with the archive, the archive has one
  entry for each distinct source value among the mismatch rows, named and titled after that
  source in ascending order of the sources; every report in it has at least one mismatch
  row, and a source without a mismatch row is not among the sources reported. Two sources
  with the same sanitized name give two entries under that one name, so the number of
  entries is the number of distinct sanitized names only when no two reported sources share
  one.
\<close>

theorem C5_one_entry_per_source:
  assumes "process_excel_data (stream file) = Inr (mismatch_df, count, full_df)"
    and "upload_file (Some file) = SendFile zf name msg"
  shows "length zf = card {k. \<exists>r\<in>set (rows mismatch_df). r SOURCE_COL = Text k}
    \<and> map fst zf = map entry_name (group_keys SOURCE_COL mismatch_df)
    \<and> map (report_title \<circ> snd) zf = map display_name (group_keys SOURCE_COL mismatch_df)
    \<and> (\<forall>(nm, p)\<in>set zf. 1 \<le> mismatch_count p)
    \<and> (\<forall>s. (\<forall>r\<in>set (rows mismatch_df). r SOURCE_COL \<noteq> Text s)
          \<longrightarrow> s \<notin> set (group_keys SOURCE_COL mismatch_df))
    \<and> (inj_on (\<lambda>k. secure_filename (display_name k))
           {k. \<exists>r\<in>set (rows mismatch_df). r SOURCE_COL = Text k}
          \<longrightarrow> length zf = length (sanitized_source_names (rows mismatch_df)))"
proof -
  from assms(2) obtain mismatch_df' count' full_df' n where
    "process_excel_data (stream file) = Inr (mismatch_df', count', full_df')"
    and w': "write_reports (groupby SOURCE_COL mismatch_df') (groupby SOURCE_COL full_df') ([], 0)
       = Inr (zf, n)"
    by (rule upload_file_SendFile)
  with assms(1) have w: "write_reports (groupby SOURCE_COL mismatch_df)
      (groupby SOURCE_COL full_df) ([], 0) = Inr (zf, n)"
    by simp
  from assms(1) obtain df where
    full: "full_df = df\<lparr>rows := map clean_row (rows df)\<rparr>"
    and mm: "mismatch_df = full_df\<lparr>rows := filter filter_mask (rows full_df)\<rparr>"
    by (rule process_excel_data_Inr)
  let ?gs = "groupby SOURCE_COL mismatch_df"
  let ?S = "{k. \<exists>r\<in>set (rows mismatch_df). r SOURCE_COL = Text k}"
  from write_reports_Inr [OF w]
  have all2: "list_all2 (report_of_group (groupby SOURCE_COL full_df)) ?gs zf"
    by simp
  have names: "map fst zf = map entry_name (group_keys SOURCE_COL mismatch_df)"
    using report_of_group_names(1) [OF all2] groupby_keys [of SOURCE_COL mismatch_df]
    by (metis map_map)
  have titles: "map (report_title \<circ> snd) zf = map display_name (group_keys SOURCE_COL mismatch_df)"
    using report_of_group_names(2) [OF all2] groupby_keys [of SOURCE_COL mismatch_df]
    by (metis map_map)
  have "length zf = length (group_keys SOURCE_COL mismatch_df)"
    using names by (metis length_map)
  then have len: "length zf = card ?S"
    by (simp add: length_group_keys)
  have pos: "\<forall>(nm, p)\<in>set zf. 1 \<le> mismatch_count p"
  proof (clarify)
    fix nm p
    assume "(nm, p) \<in> set zf"
    then obtain i where i: "i < length zf" "zf ! i = (nm, p)"
      by (auto simp add: in_set_conv_nth)
    obtain k g where kg: "?gs ! i = (k, g)" by (cases "?gs ! i")
    from all2 i have l: "i < length ?gs" and rel: "report_of_group (groupby SOURCE_COL full_df) (?gs ! i) (nm, p)"
      by (auto simp add: list_all2_conv_all_nth)
    from l kg have "(k, g) \<in> set ?gs"
      by (metis nth_mem)
    from mismatch_group_in_full [OF mm this] have "1 \<le> length (rows g)"
      by blast
    moreover from rel kg have "mismatch_count p = length (rows g)"
      by (simp add: report_of_group_def)
    ultimately show "1 \<le> mismatch_count p"
      by simp
  qed
  have none: "\<forall>s. (\<forall>r\<in>set (rows mismatch_df). r SOURCE_COL \<noteq> Text s)
          \<longrightarrow> s \<notin> set (group_keys SOURCE_COL mismatch_df)"
    by (auto simp add: group_keys_set)
  have src_text: "\<forall>r\<in>set (rows mismatch_df). \<exists>s. r SOURCE_COL = Text s"
    using full mm clean_row_source by auto
  have inj: "length zf = length (sanitized_source_names (rows mismatch_df))"
    if "inj_on (\<lambda>k. secure_filename (display_name k)) ?S"
    using that len sanitized_source_names_card [OF src_text] by (simp add: card_image)
  from len names titles pos none inj show ?thesis
    by blast
qed

section \<open>Sample runs of the route\<close>

lemma secure_unspecified: "secure_filename ''UNSPECIFIED_SOURCE'' = ''UNSPECIFIED_SOURCE''"
  by (simp add: secure_filename_def filename_char_def is_space_def Let_def)

lemma secure_L1: "secure_filename ''L1'' = ''L1''"
  by (simp add: secure_filename_def filename_char_def is_space_def Let_def)

lemma display_names:
  "display_name ''nan'' = ''UNSPECIFIED_SOURCE''"
  "display_name ''NAN'' = ''UNSPECIFIED_SOURCE''"
  "display_name ''L1'' = ''L1''"
  by (simp_all add: display_name_def text_defs)

lemma load_unnamed_sources:
  "process_excel_data (Inr unnamed_sources_df) =
     Inr (\<lparr>columns = [SEQUENCE_COL, ANPR_COL, TC_COL, SOURCE_COL],
           rows = [plate_row ''ABC123'' ''ABD123'' ''nan'' (Text ''1''),
                   plate_row ''ABC123'' ''ABC12'' ''NAN'' (Text ''2'')]\<rparr>,
          2,
          \<lparr>columns = [SEQUENCE_COL, ANPR_COL, TC_COL, SOURCE_COL],
           rows = [plate_row ''ABC123'' ''ABD123'' ''nan'' (Text ''1''),
                   plate_row ''ABC123'' ''ABC12'' ''NAN'' (Text ''2'')]\<rparr>)"
proof -
  have n: "upper (strip ''ABC123'') = ''ABC123''" "upper (strip ''ABD123'') = ''ABD123''"
    "upper (strip ''ABC12'') = ''ABC12''" "strip ''nan'' = ''nan''" "strip ''NAN'' = ''NAN''"
    by (simp_all add: text_defs)
  show ?thesis
    by (simp add: process_excel_data_def unnamed_sources_df_def Let_def clean_plate_row
        filter_mask_plate_row n check_abc123_abd123 check_abc123_abc12)
qed

lemma load_required_columns:
  "process_excel_data (Inr required_columns_df) =
     Inr (\<lparr>columns = [ANPR_COL, TC_COL, SOURCE_COL],
           rows = [plate_row ''ABC123'' ''ABD123'' ''L1'' NaN]\<rparr>,
          1,
          \<lparr>columns = [ANPR_COL, TC_COL, SOURCE_COL],
           rows = [plate_row ''ABC123'' ''ABD123'' ''L1'' NaN]\<rparr>)"
proof -
  have n: "upper (strip ''abc123'') = ''ABC123''" "upper (strip ''ABD123'') = ''ABD123''"
    "strip ''L1'' = ''L1''"
    by (simp_all add: text_defs)
  show ?thesis
    by (simp add: process_excel_data_def required_columns_df_def Let_def clean_plate_row
        filter_mask_plate_row n check_abc123_abd123)
qed

theorem C5_one_entry_per_source_witness:
  "process_excel_data (Inr two_lanes_df) =
     Inr (\<lparr>columns = [SEQUENCE_COL, ANPR_COL, TC_COL, SOURCE_COL],
           rows = [plate_row ''ABC123'' ''ABD123'' ''L1'' (Text ''1'')]\<rparr>,
          1,
          \<lparr>columns = [SEQUENCE_COL, ANPR_COL, TC_COL, SOURCE_COL],
           rows = [plate_row ''ABC123'' ''ABD123'' ''L1'' (Text ''1''),
                   plate_row ''XYZ999'' ''XYZ999'' ''L1'' (Text ''0''),
                   plate_row ''KA01'' ''KA01'' ''L2'' NaN]\<rparr>)
   \<and> map fst (archive_entries (upload_file
        (Some \<lparr>filename = ''plates.xlsx'', stream = Inr two_lanes_df\<rparr>)))
       = [''ANPR_Report_L1.pdf'']
   \<and> map (report_title \<circ> snd) (archive_entries (upload_file
        (Some \<lparr>filename = ''plates.xlsx'', stream = Inr two_lanes_df\<rparr>))) = [''L1'']
   \<and> sanitized_source_names (loaded_mismatch (Inr two_lanes_df)) = [''L1'']
   \<and> group_keys SOURCE_COL
        \<lparr>columns = [SEQUENCE_COL, ANPR_COL, TC_COL, SOURCE_COL],
         rows = [plate_row ''ABC123'' ''ABD123'' ''L1'' (Text ''1'')]\<rparr> = [''L1'']"
proof -
  let ?file = "\<lparr>filename = ''plates.xlsx'', stream = Inr two_lanes_df\<rparr>"
  let ?mm = "\<lparr>columns = [SEQUENCE_COL, ANPR_COL, TC_COL, SOURCE_COL],
           rows = [plate_row ''ABC123'' ''ABD123'' ''L1'' (Text ''1'')]\<rparr>"
  let ?full = "\<lparr>columns = [SEQUENCE_COL, ANPR_COL, TC_COL, SOURCE_COL],
           rows = [plate_row ''ABC123'' ''ABD123'' ''L1'' (Text ''1''),
                   plate_row ''XYZ999'' ''XYZ999'' ''L1'' (Text ''0''),
                   plate_row ''KA01'' ''KA01'' ''L2'' NaN]\<rparr>"
  have load: "process_excel_data (stream ?file) = Inr (?mm, 1, ?full)"
    by (simp add: load_two_lanes)
  have "\<exists>zf name msg. upload_file (Some ?file) = SendFile zf name msg"
    by (rule upload_file_sends [OF _ _ load]) (simp_all add: allowed_plates_xlsx)
  then obtain zf name msg where send: "upload_file (Some ?file) = SendFile zf name msg"
    by blast
  have keys: "group_keys SOURCE_COL ?mm = [''L1'']"
    by (simp add: group_keys_def plate_row_cells)
  from C5_one_entry_per_source [OF load send]
  have "map fst zf = map entry_name (group_keys SOURCE_COL ?mm)"
    and "map (report_title \<circ> snd) zf = map display_name (group_keys SOURCE_COL ?mm)"
    by blast+
  then have "map fst zf = [''ANPR_Report_L1.pdf'']" "map (report_title \<circ> snd) zf = [''L1'']"
    by (simp_all add: keys entry_name_def display_names secure_L1)
  moreover have "sanitized_source_names (loaded_mismatch (Inr two_lanes_df)) = [''L1'']"
    by (simp add: loaded_mismatch_def load_two_lanes sanitized_source_names_def
        plate_row_cells display_names secure_L1)
  ultimately show ?thesis
    using send keys by (simp add: archive_entries_def load_two_lanes)
qed

text \<open>
  The sources \<^verbatim>\<open>nan\<close> and \<^verbatim>\<open>NAN\<close> both take the sentinel name: the archive gets two entries
  with one name, where the spec's wording counts one sanitized name.
\<close>

theorem C5_counterexample:
  "map fst (archive_entries (upload_file
      (Some \<lparr>filename = ''plates.xlsx'', stream = Inr unnamed_sources_df\<rparr>)))
     = [''ANPR_Report_UNSPECIFIED_SOURCE.pdf'', ''ANPR_Report_UNSPECIFIED_SOURCE.pdf'']
   \<and> sanitized_source_names (loaded_mismatch (Inr unnamed_sources_df)) = [''UNSPECIFIED_SOURCE'']"
proof -
  let ?file = "\<lparr>filename = ''plates.xlsx'', stream = Inr unnamed_sources_df\<rparr>"
  let ?df = "\<lparr>columns = [SEQUENCE_COL, ANPR_COL, TC_COL, SOURCE_COL],
           rows = [plate_row ''ABC123'' ''ABD123'' ''nan'' (Text ''1''),
                   plate_row ''ABC123'' ''ABC12'' ''NAN'' (Text ''2'')]\<rparr>"
  have load: "process_excel_data (stream ?file) = Inr (?df, 2, ?df)"
    by (simp add: load_unnamed_sources)
  have "\<exists>zf name msg. upload_file (Some ?file) = SendFile zf name msg"
    by (rule upload_file_sends [OF _ _ load]) (simp_all add: allowed_plates_xlsx)
  then obtain zf name msg where send: "upload_file (Some ?file) = SendFile zf name msg"
    by blast
  have keys: "group_keys SOURCE_COL ?df = [''NAN'', ''nan'']"
    by (simp add: group_keys_def plate_row_cells)
  have "map fst zf = map entry_name (group_keys SOURCE_COL ?df)"
    by (rule archive_names [OF load send])
  then have "map fst zf
      = [''ANPR_Report_UNSPECIFIED_SOURCE.pdf'', ''ANPR_Report_UNSPECIFIED_SOURCE.pdf'']"
    by (simp add: keys entry_name_def display_names secure_unspecified)
  moreover have "sanitized_source_names (loaded_mismatch (Inr unnamed_sources_df))
      = [''UNSPECIFIED_SOURCE'']"
    by (simp add: loaded_mismatch_def load_unnamed_sources sanitized_source_names_def
        plate_row_cells display_names secure_unspecified)
  ultimately show ?thesis
    using send by (simp add: archive_entries_def)
qed

text \<open>
  Without the optional column \<^verbatim>\<open>ANPR Sequence\<close> the selection on line 235 raises
  \<^verbatim>\<open>KeyError\<close> for the first group, whatever the worksheet holds otherwise, and the route
  flashes the error instead of sending the archive.
\<close>

lemma upload_file_without_sequence:
  assumes "filename file \<noteq> []" and "allowed_file (filename file)"
    and load: "process_excel_data (stream file) = Inr (mismatch_df, count, full_df)"
    and ne: "rows mismatch_df \<noteq> []"
    and seq: "SEQUENCE_COL \<notin> set (columns full_df)"
  shows "upload_file (Some file) =
     Redirect (''An unexpected error occurred during processing or report generation: ''
                 @ str_exc (KeyError SEQUENCE_COL), error)"
proof -
  from load obtain df where
    cols: "SOURCE_COL \<in> set (columns df)"
    and full: "full_df = df\<lparr>rows := map clean_row (rows df)\<rparr>"
    and mm: "mismatch_df = full_df\<lparr>rows := filter filter_mask (rows full_df)\<rparr>"
    by (rule process_excel_data_Inr)
  from cols full mm have "columns mismatch_df \<noteq> []"
    by auto
  with ne have nempty: "\<not> empty_df mismatch_df"
    by (simp add: empty_df_def)
  from ne obtain r where r: "r \<in> set (rows mismatch_df)"
    by (cases "rows mismatch_df") auto
  with full mm obtain s where "r SOURCE_COL = Text s"
    using clean_row_source by auto
  with r have "s \<in> set (group_keys SOURCE_COL mismatch_df)"
    by (auto simp add: group_keys_set)
  then have "groupby SOURCE_COL mismatch_df \<noteq> []"
    by (auto simp add: groupby_def)
  then obtain k g rest where gs: "groupby SOURCE_COL mismatch_df = (k, g) # rest"
    by (cases "groupby SOURCE_COL mismatch_df") auto
  then have "(k, g) \<in> set (groupby SOURCE_COL mismatch_df)"
    by simp
  from mismatch_group_in_full [OF mm this] obtain fg where
    fg: "get_group (groupby SOURCE_COL full_df) k = Inr fg" "columns fg = columns full_df"
    by blast
  with seq have "count_zero_seq fg = Inl (KeyError SEQUENCE_COL)"
    by (simp add: count_zero_seq_def)
  then have "create_pdf_report g fg (display_name k) = Inl (KeyError SEQUENCE_COL)"
    by (simp add: create_pdf_report_def Let_def)
  with gs fg have "write_reports (groupby SOURCE_COL mismatch_df)
      (groupby SOURCE_COL full_df) ([], 0) = Inl (KeyError SEQUENCE_COL)"
    by simp
  with assms(1,2) load nempty show ?thesis
    by (simp add: upload_file_def)
qed

text \<open>
  Claim C4 at a worksheet with exactly the three required columns and one near-mismatch row:
  the route redirects with the \<^verbatim>\<open>KeyError\<close> flashed, and no archive is produced.
\<close>

theorem C4_sequence_column_absent:
  "upload_file (Some \<lparr>filename = ''plates.xlsx'', stream = Inr required_columns_df\<rparr>)
     = Redirect (''An unexpected error occurred during processing or report generation: ''
                   @ [CHR 0x27] @ ''ANPR Sequence'' @ [CHR 0x27], error)"
proof -
  have "SEQUENCE_COL \<notin> set [ANPR_COL, TC_COL, SOURCE_COL]"
    by (simp add: column_defs)
  then show ?thesis
    using upload_file_without_sequence
      [of "\<lparr>filename = ''plates.xlsx'', stream = Inr required_columns_df\<rparr>"
          "\<lparr>columns = [ANPR_COL, TC_COL, SOURCE_COL],
           rows = [plate_row ''ABC123'' ''ABD123'' ''L1'' NaN]\<rparr>" 1
          "\<lparr>columns = [ANPR_COL, TC_COL, SOURCE_COL],
           rows = [plate_row ''ABC123'' ''ABD123'' ''L1'' NaN]\<rparr>"]
    by (simp add: allowed_plates_xlsx load_required_columns SEQUENCE_COL_def)
qed

end
